theory Spec2Isabelle
  imports Complex_Main "HOL-Library.Word"
begin

section \<open>Values shared by the model manager\<close>

text \<open>
  The development embeds \<^verbatim>\<open>models/ModelManager.js\<close>. A JavaScript number is either a
  finite value, read here as an exact real (the rounding of IEEE doubles and of the
  \<^verbatim>\<open>Float32Array\<close> store is not part of the model), or one of the three non-finite
  numbers. \<^verbatim>\<open>undefined\<close> is \<open>None\<close> of an option type wherever the source can
  produce it.
\<close>

type_synonym byte = "8 word"

type_synonym path = string

datatype jsnum = Fin real | NaN | PosInf | NegInf

text \<open>\<^verbatim>\<open>Number.isFinite(v)\<close> and \<^verbatim>\<open>Number.isNaN(v)\<close>.\<close>

fun isFinite :: "jsnum \<Rightarrow> bool" where
  "isFinite (Fin r) = True"
| "isFinite NaN = False"
| "isFinite PosInf = False"
| "isFinite NegInf = False"

fun isNaN :: "jsnum \<Rightarrow> bool" where
  "isNaN NaN = True"
| "isNaN (Fin r) = False"
| "isNaN PosInf = False"
| "isNaN NegInf = False"

text \<open>
  Every \<^verbatim>\<open>throw\<close> of the source is a value of this type. The constructors stand for the
  \<^verbatim>\<open>Error\<close> objects the code builds (their message is the constructor and its arguments)
  and for the errors of the libraries it calls.
\<close>

datatype js_error =
    SharpError string
  | BufferSizeMismatch nat nat
  | PreprocessingFailed js_error
  | InvalidTensorFormat
  | TensorNotFinite
  | OrtError string
  | TypeError string
  | HttpError nat
  | RequestFailed string
  | DownloadTimeout
  | FsError string

text \<open>An \<^verbatim>\<open>ort.Tensor\<close> of type float32: its data and its dims.\<close>

record tensor =
  tdata :: "jsnum list"
  dims :: "nat list"

text \<open>
  What lies outside the process: the image library, the clock, the inference runtime's
  session factory and the network. Each is a function of the model, so that every theorem
  holds for whatever they answer.
\<close>

record session =
  inputNames :: "string list"
  outputNames :: "string list"
  run :: "string \<Rightarrow> tensor \<Rightarrow> js_error + (string \<rightharpoonup> tensor)"

text \<open>
  What a call of \<^verbatim>\<open>https.get(url, callback)\<close> leads to: a response (status code,
  \<^verbatim>\<open>Location\<close> header, body), an \<^verbatim>\<open>'error'\<close> event of the request, no event for
  two minutes, or the call itself throwing before any request is made.
\<close>

datatype http_exchange =
    Response nat string "byte list"
  | RequestError string
  | RequestTimeout
  | Threw js_error

record world =
  sharp_metadata :: "path \<Rightarrow> js_error + unit"
  sharp_raw :: "path \<Rightarrow> js_error + byte list"
  clock_before :: int
  clock_after :: int
  ort_create :: "byte list \<Rightarrow> js_error + session"
  https_get :: "string \<Rightarrow> http_exchange"
  unlink_error :: "path \<Rightarrow> string option"

section \<open>Preprocessing\<close>

definition expectedSize :: nat where
  "expectedSize = 224 * 224 * 3"

definition totalPixels :: nat where
  "totalPixels = 224 * 224"

definition batchSize :: nat where
  "batchSize = 1000"

definition mean :: "real list" where
  "mean = [0.485, 0.456, 0.406]"

definition std :: "real list" where
  "std = [0.229, 0.224, 0.225]"

text \<open>
  The body of the inner loop of \<^verbatim>\<open>preprocessImage\<close>: the three bytes of pixel \<open>i\<close> are
  read from the interleaved buffer, normalised, and stored at \<open>i\<close>, \<open>i + totalPixels\<close>
  and \<open>i + 2 * totalPixels\<close>. A store outside a typed array is dropped, as
  \<open>list_update\<close> does.
\<close>

definition store_pixel :: "byte list \<Rightarrow> nat \<Rightarrow> jsnum list \<Rightarrow> jsnum list" where
  "store_pixel buffer i float32Data =
     (let r_raw = buffer ! (i * 3 + 0);
          g_raw = buffer ! (i * 3 + 1);
          b_raw = buffer ! (i * 3 + 2);
          r_norm = (real (unat r_raw) / 255 - mean ! 0) / std ! 0;
          g_norm = (real (unat g_raw) / 255 - mean ! 1) / std ! 1;
          b_norm = (real (unat b_raw) / 255 - mean ! 2) / std ! 2
      in float32Data[i := Fin r_norm,
                     i + totalPixels := Fin g_norm,
                     i + 2 * totalPixels := Fin b_norm])"

text \<open>\<^verbatim>\<open>for (let i = startIdx; i < endIdx; i++)\<close>\<close>

function pixel_loop :: "byte list \<Rightarrow> nat \<Rightarrow> nat \<Rightarrow> jsnum list \<Rightarrow> jsnum list" where
  "pixel_loop buffer endIdx i float32Data =
     (if i < endIdx
      then pixel_loop buffer endIdx (i + 1) (store_pixel buffer i float32Data)
      else float32Data)"
  by pat_completeness auto
termination
  by (relation "measure (\<lambda>(buffer, endIdx, i, float32Data). endIdx - i)") auto

declare pixel_loop.simps [simp del]

text \<open>\<^verbatim>\<open>for (let batch = 0; batch < Math.ceil(totalPixels / batchSize); batch++)\<close>\<close>

function batch_loop :: "byte list \<Rightarrow> nat \<Rightarrow> jsnum list \<Rightarrow> jsnum list" where
  "batch_loop buffer batch float32Data =
     (if int batch < \<lceil>real totalPixels / real batchSize\<rceil>
      then (let startIdx = batch * batchSize;
                endIdx = min (startIdx + batchSize) totalPixels
            in batch_loop buffer (batch + 1) (pixel_loop buffer endIdx startIdx float32Data))
      else float32Data)"
  by pat_completeness auto
termination
  by (relation "measure (\<lambda>(buffer, batch, float32Data).
        nat \<lceil>real totalPixels / real batchSize\<rceil> - batch)") auto

declare batch_loop.simps [simp del]

text \<open>
  \<^verbatim>\<open>preprocessImage(imagePath)\<close>. The image library answers through the world: the
  metadata call, then the resized, alpha-free raw buffer. Both may throw. The debug
  statistics the source prints between the loop and the tensor read a sample of the data
  and change nothing. Whatever is thrown inside is caught and thrown again as
  \<^verbatim>\<open>Error(`Image preprocessing failed: ${error.message}`)\<close>.
\<close>

definition preprocessImage_try :: "world \<Rightarrow> path \<Rightarrow> js_error + tensor" where
  "preprocessImage_try w imagePath =
     (case sharp_metadata w imagePath of
        Inl e \<Rightarrow> Inl e
      | Inr originalInfo \<Rightarrow>
          (case sharp_raw w imagePath of
             Inl e \<Rightarrow> Inl e
           | Inr buffer \<Rightarrow>
               if length buffer \<noteq> expectedSize
               then Inl (BufferSizeMismatch expectedSize (length buffer))
               else (let float32Data = replicate (3 * 224 * 224) (Fin 0);
                         float32Data = batch_loop buffer 0 float32Data
                     in Inr \<lparr>tdata = float32Data, dims = [1, 3, 224, 224]\<rparr>)))"

definition preprocessImage :: "world \<Rightarrow> path \<Rightarrow> js_error + tensor" where
  "preprocessImage w imagePath =
     (case preprocessImage_try w imagePath of
        Inl e \<Rightarrow> Inl (PreprocessingFailed e)
      | Inr t \<Rightarrow> Inr t)"

text \<open>
  \<^verbatim>\<open>validateModelInput(inputTensor)\<close>. The first test of the source rejects a missing
  tensor or missing data; a value of type \<^typ>\<open>tensor\<close> has both, so only the test for
  non-finite values can throw.
\<close>

definition validateModelInput :: "tensor \<Rightarrow> js_error + bool" where
  "validateModelInput inputTensor =
     (let arr = tdata inputTensor;
          hasInvalid = list_ex (\<lambda>v. \<not> isFinite v \<or> isNaN v) arr
      in if hasInvalid then Inl TensorNotFinite else Inr True)"

text \<open>
  The value the planar tensor is to hold for channel \<open>c\<close> of pixel \<open>i\<close>; the loop
  lemmas below are stated with it.
\<close>

definition norm_at :: "byte list \<Rightarrow> nat \<Rightarrow> nat \<Rightarrow> jsnum" where
  "norm_at buffer c i = Fin ((real (unat (buffer ! (3 * i + c))) / 255 - mean ! c) / std ! c)"

section \<open>The manager and its files\<close>

text \<open>
  The fields of \<^verbatim>\<open>this\<close> that change, together with the two pieces of the process the
  methods act on: the files they test, write and delete, and the timers they set. A timer
  is the delay in milliseconds of a pending \<^verbatim>\<open>setTimeout(() => this.loadModel(), delay)\<close>.
  The paths are fixed by the constructor, relative to the module's directory.
\<close>

record manager =
  sessionONNX :: "session option"
  modelLoadAttempts :: nat
  maxLoadAttempts :: nat
  isLoading :: bool
  files :: "path \<rightharpoonup> byte list"
  cacheDirExists :: bool
  timers :: "nat list"

definition modelPath :: string where
  "modelPath = ''https://huggingface.co/syntichemusawu/MalariaD/resolve/main/eyelid_anemia_model.onnx''"

definition cachedModelPath :: path where
  "cachedModelPath = ''.cache/eyelid_anemia_model.onnx''"

definition localModelPath :: path where
  "localModelPath = ''eyelid_anemia_model.onnx''"

definition constructor :: "(path \<rightharpoonup> byte list) \<Rightarrow> bool \<Rightarrow> manager" where
  "constructor fs dir =
     \<lparr>sessionONNX = None, modelLoadAttempts = 0, maxLoadAttempts = 3, isLoading = False,
      files = fs, cacheDirExists = dir, timers = []\<rparr>"

definition existsSync :: "manager \<Rightarrow> path \<Rightarrow> bool" where
  "existsSync m p = (files m p \<noteq> None)"

definition getModelSource :: "manager \<Rightarrow> string" where
  "getModelSource m =
     (if existsSync m cachedModelPath then ''huggingface_cached''
      else if existsSync m localModelPath then ''local''
      else ''none'')"

record model_status =
  isLoaded :: bool
  loadAttempts :: nat
  maxAttempts :: nat
  status_isLoading :: bool
  repository :: string
  modelUrl :: string
  status_modelSource :: string
  cached :: bool
  localExists :: bool
  status_inputNames :: "string list"
  status_outputNames :: "string list"

definition getModelStatus :: "manager \<Rightarrow> model_status" where
  "getModelStatus m =
     \<lparr>isLoaded = (sessionONNX m \<noteq> None),
      loadAttempts = modelLoadAttempts m,
      maxAttempts = maxLoadAttempts m,
      status_isLoading = isLoading m,
      repository = ''syntichemusawu/MalariaD'',
      modelUrl = modelPath,
      status_modelSource = getModelSource m,
      cached = existsSync m cachedModelPath,
      localExists = existsSync m localModelPath,
      status_inputNames = (case sessionONNX m of None \<Rightarrow> [] | Some sess \<Rightarrow> inputNames sess),
      status_outputNames = (case sessionONNX m of None \<Rightarrow> [] | Some sess \<Rightarrow> outputNames sess)\<rparr>"

definition isModelReady :: "manager \<Rightarrow> bool" where
  "isModelReady m = (sessionONNX m \<noteq> None \<and> \<not> isLoading m)"

section \<open>Prediction\<close>

record debug_info =
  rawOutput :: "jsnum list"
  outputShape :: "nat list"
  inferenceTime :: int

record prediction_result =
  prediction :: string
  confidence :: "jsnum option"
  usingDefaultPrediction :: bool
  modelSource :: string
  debug :: "debug_info option"
  error :: "js_error option"

text \<open>The object both the missing-session branch and the catch block build.\<close>

definition default_prediction :: prediction_result where
  "default_prediction =
     \<lparr>prediction = ''Anemic'', confidence = Some (Fin 0.8), usingDefaultPrediction = True,
      modelSource = ''none'', debug = None, error = None\<rparr>"

text \<open>
  \<^verbatim>\<open>names[0]\<close> used as a property key: of an empty list it is \<^verbatim>\<open>undefined\<close>, and the
  key is then the string of that name.
\<close>

fun first_name :: "string list \<Rightarrow> string" where
  "first_name [] = ''undefined''"
| "first_name (n # ns) = n"

text \<open>\<^verbatim>\<open>outputData[0]\<close>: \<^verbatim>\<open>undefined\<close> when the output is empty.\<close>

fun first_value :: "jsnum list \<Rightarrow> jsnum option" where
  "first_value [] = None"
| "first_value (v # vs) = Some v"

text \<open>
  \<^verbatim>\<open>rawConfidence > x\<close> for a finite \<open>x\<close>: false for \<^verbatim>\<open>undefined\<close> and for NaN.
\<close>

fun js_gt :: "jsnum option \<Rightarrow> real \<Rightarrow> bool" where
  "js_gt (Some (Fin r)) x = (r > x)"
| "js_gt (Some PosInf) x = True"
| "js_gt (Some NegInf) x = False"
| "js_gt (Some NaN) x = False"
| "js_gt None x = False"

text \<open>The body of the try block of \<^verbatim>\<open>predict(imagePath)\<close>.\<close>

definition predict_try :: "world \<Rightarrow> manager \<Rightarrow> path \<Rightarrow> js_error + prediction_result" where
  "predict_try w m imagePath =
     (case sessionONNX m of
        None \<Rightarrow> Inr default_prediction
      | Some sess \<Rightarrow>
          (case preprocessImage w imagePath of
             Inl e \<Rightarrow> Inl e
           | Inr inputTensor \<Rightarrow>
               (case validateModelInput inputTensor of
                  Inl e \<Rightarrow> Inl e
                | Inr ok \<Rightarrow>
                    (let inputName = first_name (inputNames sess);
                         startTime = clock_before w
                     in case run sess inputName inputTensor of
                          Inl e \<Rightarrow> Inl e
                        | Inr results \<Rightarrow>
                            (let inferenceTime = clock_after w - startTime;
                                 outputName = first_name (outputNames sess)
                             in case results outputName of
                                  None \<Rightarrow> Inl (TypeError ''Cannot read properties of undefined'')
                                | Some outputTensor \<Rightarrow>
                                    (let outputData = tdata outputTensor;
                                         rawConfidence = first_value outputData;
                                         (prediction, confidence) =
                                           (if js_gt rawConfidence 0.5
                                            then (''Non-anemic'', rawConfidence)
                                            else (''Anemic'', rawConfidence))
                                     in Inr \<lparr>prediction = prediction,
                                             confidence = confidence,
                                             usingDefaultPrediction = False,
                                             modelSource = getModelSource m,
                                             debug = Some \<lparr>rawOutput = outputData,
                                                            outputShape = dims outputTensor,
                                                            inferenceTime = inferenceTime\<rparr>,
                                             error = None\<rparr>))))))"

text \<open>
  \<^verbatim>\<open>predict(imagePath)\<close>: the try block and its catch. The result is a sum so that a
  rejected promise could be told from a result; the catch block builds an object and
  returns it.
\<close>

definition predict :: "world \<Rightarrow> manager \<Rightarrow> path \<Rightarrow> js_error + prediction_result" where
  "predict w m imagePath =
     (case predict_try w m imagePath of
        Inr r \<Rightarrow> Inr r
      | Inl e \<Rightarrow> Inr (default_prediction\<lparr>error := Some e\<rparr>))"

text \<open>The range the interface documents for a confidence.\<close>

fun in_unit_interval :: "jsnum option \<Rightarrow> bool" where
  "in_unit_interval (Some (Fin r)) = (0 \<le> r \<and> r \<le> 1)"
| "in_unit_interval (Some PosInf) = False"
| "in_unit_interval (Some NegInf) = False"
| "in_unit_interval (Some NaN) = False"
| "in_unit_interval None = False"

section \<open>Cache\<close>

record clear_result =
  success :: bool
  message :: string

text \<open>
  \<^verbatim>\<open>clearCache()\<close>. \<^verbatim>\<open>fs.unlinkSync\<close> may throw (the world says so); the catch block
  reports it.
\<close>

definition clearCache :: "world \<Rightarrow> manager \<Rightarrow> manager \<times> clear_result" where
  "clearCache w m =
     (if existsSync m cachedModelPath
      then (case unlink_error w cachedModelPath of
              None \<Rightarrow> (m\<lparr>files := (files m)(cachedModelPath := None)\<rparr>,
                        \<lparr>success = True, message = ''Cache cleared''\<rparr>)
            | Some msg \<Rightarrow> (m, \<lparr>success = False, message = msg\<rparr>))
      else (m, \<lparr>success = True, message = ''Cache cleared''\<rparr>))"

section \<open>Acquisition\<close>

text \<open>
  A promise of the source at the end of time: resolved with a value, rejected with an
  error, or never settled.
\<close>

datatype 'a promise = Resolved 'a | Rejected js_error | Pending

text \<open>
  \<^verbatim>\<open>ort.InferenceSession.create(path, ...)\<close>: the runtime reads the file at the path and
  answers with a session or throws; a missing file throws.
\<close>

definition create_session :: "world \<Rightarrow> manager \<Rightarrow> path \<Rightarrow> js_error + session" where
  "create_session w m p =
     (case files m p of
        None \<Rightarrow> Inl (OrtError ''file not found'')
      | Some bytes \<Rightarrow> ort_create w bytes)"

text \<open>
  \<^verbatim>\<open>https.get\<close> parses a string argument as an absolute URL and insists on the
  \<^verbatim>\<open>https:\<close> protocol; otherwise it throws. The parser drops leading spaces and
  control characters and reads the scheme without regard to case. A relative reference, or
  a URL of another scheme, therefore makes the call throw; for the strings that pass this
  test the world says what happens, a throw for another reason included.
\<close>

definition same_letter :: "char \<Rightarrow> char \<Rightarrow> bool" where
  "same_letter c l =
     (c = l \<or> ((97::nat) \<le> of_char l \<and> of_char l \<le> (122::nat) \<and>
               of_char c + (32::nat) = of_char l))"

definition https_scheme :: "string \<Rightarrow> bool" where
  "https_scheme url =
     list_all2 same_letter (take 6 (dropWhile (\<lambda>c. of_char c \<le> (32::nat)) url)) ''https:''"

definition https_get_call :: "world \<Rightarrow> string \<Rightarrow> http_exchange" where
  "https_get_call w url =
     (if https_scheme url then https_get w url
      else Threw (TypeError ''Invalid URL or protocol''))"

text \<open>
  \<^verbatim>\<open>downloadModel()\<close>: the promise it returns, with the files as they are left.
  \<^verbatim>\<open>fs.createWriteStream\<close> creates the cache file, empty; when the cache directory is
  missing the stream emits an \<^verbatim>\<open>'error'\<close> that nothing listens to, an uncaught exception,
  and the promise is never settled. A throw of the first \<^verbatim>\<open>https.get\<close>, inside the
  executor, rejects the promise. Status 200 pipes the body into the file and resolves when
  the file is finished. Status 302 or 301 calls \<^verbatim>\<open>https.get\<close> on the location, inside
  the response callback: if that call throws, the exception is uncaught and the promise is
  never settled; otherwise whatever response arrives is piped, with no test of its status.
  Every other status rejects. An \<^verbatim>\<open>'error'\<close> event of either request unlinks the file and
  rejects. The timeout destroys the first request, which then emits its \<^verbatim>\<open>'error'\<close>, and
  rejects; on the second request it is the only handler left to reject. A response is
  taken to arrive whole: a stall or a reset in the middle of a body is not modelled.
\<close>

definition downloadModel :: "world \<Rightarrow> manager \<Rightarrow> manager \<times> unit promise" where
  "downloadModel w m =
     (if \<not> cacheDirExists m then (m, Pending)
      else
       (let m = m\<lparr>files := (files m)(cachedModelPath \<mapsto> [])\<rparr>
        in case https_get_call w modelPath of
             Threw e \<Rightarrow> (m, Rejected e)
           | Response statusCode location body \<Rightarrow>
               if statusCode = 200
               then (m\<lparr>files := (files m)(cachedModelPath \<mapsto> body)\<rparr>, Resolved ())
               else if statusCode = 302 \<or> statusCode = 301
               then (case https_get_call w location of
                       Threw e \<Rightarrow> (m, Pending)
                     | Response redirectStatus redirectLocation redirectBody \<Rightarrow>
                         (m\<lparr>files := (files m)(cachedModelPath \<mapsto> redirectBody)\<rparr>, Resolved ())
                     | RequestError msg \<Rightarrow>
                         (m\<lparr>files := (files m)(cachedModelPath := None)\<rparr>,
                          Rejected (RequestFailed msg))
                     | RequestTimeout \<Rightarrow> (m, Rejected DownloadTimeout))
               else (m, Rejected (HttpError statusCode))
           | RequestError msg \<Rightarrow>
               (m\<lparr>files := (files m)(cachedModelPath := None)\<rparr>, Rejected (RequestFailed msg))
           | RequestTimeout \<Rightarrow>
               (m\<lparr>files := (files m)(cachedModelPath := None)\<rparr>, Rejected DownloadTimeout)))"

text \<open>
  \<^verbatim>\<open>loadModel()\<close> in three pieces. The first is what runs before the first \<^verbatim>\<open>await\<close>,
  once the loading flag was found clear: the counter goes up and the flag is set.
\<close>

definition loadModel_begin :: "manager \<Rightarrow> manager" where
  "loadModel_begin m = m\<lparr>modelLoadAttempts := modelLoadAttempts m + 1, isLoading := True\<rparr>"

text \<open>
  The try block: the cache if it exists, otherwise the download and then the cache. It
  ends with the session, with a thrown error, or never, when the download never settles.
\<close>

definition loadModel_try :: "world \<Rightarrow> manager \<Rightarrow> manager \<times> session promise" where
  "loadModel_try w m =
     (if existsSync m cachedModelPath
      then (case create_session w m cachedModelPath of
              Inl e \<Rightarrow> (m, Rejected e)
            | Inr sess \<Rightarrow> (m\<lparr>sessionONNX := Some sess, isLoading := False\<rparr>, Resolved sess))
      else (case downloadModel w m of
              (m, Rejected e) \<Rightarrow> (m, Rejected e)
            | (m, Pending) \<Rightarrow> (m, Pending)
            | (m, Resolved done) \<Rightarrow>
                (case create_session w m cachedModelPath of
                   Inl e \<Rightarrow> (m, Rejected e)
                 | Inr sess \<Rightarrow>
                     (m\<lparr>sessionONNX := Some sess, isLoading := False\<rparr>, Resolved sess))))"

text \<open>
  The catch block: the bundled file if it exists and loads, otherwise the flag is cleared
  and, while the counter is below its bound, one timer of 3000 ms is set to call
  \<^verbatim>\<open>loadModel\<close> again. The function then returns \<^verbatim>\<open>undefined\<close>.
\<close>

definition loadModel_catch :: "world \<Rightarrow> manager \<Rightarrow> js_error \<Rightarrow> manager \<times> session option" where
  "loadModel_catch w m e =
     (let fallback =
            (if existsSync m localModelPath
             then (case create_session w m localModelPath of
                     Inl fallbackError \<Rightarrow> None
                   | Inr sess \<Rightarrow> Some sess)
             else None)
      in case fallback of
           Some sess \<Rightarrow> (m\<lparr>sessionONNX := Some sess, isLoading := False\<rparr>, Some sess)
         | None \<Rightarrow>
             (let m = m\<lparr>isLoading := False\<rparr>
              in if modelLoadAttempts m < maxLoadAttempts m
                 then (m\<lparr>timers := timers m @ [3000]\<rparr>, None)
                 else (m, None)))"

text \<open>
  Everything after the flag was set. The catch block takes every error, so the promise of
  \<^verbatim>\<open>loadModel\<close> is never rejected; it is never settled when the try block never ends,
  and then the flag stays set.
\<close>

definition loadModel_run :: "world \<Rightarrow> manager \<Rightarrow> manager \<times> session option promise" where
  "loadModel_run w m =
     (case loadModel_try w m of
        (m, Resolved sess) \<Rightarrow> (m, Resolved (Some sess))
      | (m, Rejected e) \<Rightarrow> (case loadModel_catch w m e of (m, r) \<Rightarrow> (m, Resolved r))
      | (m, Pending) \<Rightarrow> (m, Pending))"

text \<open>
  \<^verbatim>\<open>waitForLoad()\<close> polls the flag every 100 ms. Run on its own, with nothing else
  changing the manager, it either resolves at once or polls for ever.
\<close>

partial_function (option) waitForLoad :: "manager \<Rightarrow> unit option" where
  "waitForLoad m = (if \<not> isLoading m then Some () else waitForLoad m)"

text \<open>\<^verbatim>\<open>loadModel()\<close> run to its end with nothing else scheduled in between.\<close>

definition loadModel :: "world \<Rightarrow> manager \<Rightarrow> manager \<times> session option promise" where
  "loadModel w m =
     (if isLoading m
      then (case waitForLoad m of None \<Rightarrow> (m, Pending) | Some done \<Rightarrow> (m, Resolved None))
      else loadModel_run w (loadModel_begin m))"


text \<open>
  \<^verbatim>\<open>initialize()\<close>: the cache directory is made if it is missing, then the model is
  loaded.
\<close>

definition initialize :: "world \<Rightarrow> manager \<Rightarrow> manager \<times> model_status promise" where
  "initialize w m =
     (let m = (if \<not> cacheDirExists m then m\<lparr>cacheDirExists := True\<rparr> else m)
      in case loadModel w m of
           (m, Resolved r) \<Rightarrow> (m, Resolved (getModelStatus m))
         | (m, Rejected e) \<Rightarrow> (m, Rejected e)
         | (m, Pending) \<Rightarrow> (m, Pending))"

section \<open>Callers on the event loop\<close>









section \<open>Invariants of the event loop\<close>









section \<open>Inputs used by the examples\<close>

text \<open>
  A session that answers every run with one output tensor holding the given data, a black
  image of the right size, and a world that decodes every path to that image.
\<close>

definition const_session :: "jsnum list \<Rightarrow> session" where
  "const_session out =
     \<lparr>inputNames = [''input''], outputNames = [''output''],
      run = (\<lambda>name t. Inr [''output'' \<mapsto> \<lparr>tdata = out, dims = [1, 1]\<rparr>])\<rparr>"

definition black_image :: "byte list" where
  "black_image = replicate 150528 0"

definition black_tensor :: tensor where
  "black_tensor = \<lparr>tdata = batch_loop black_image 0 (replicate (3 * 224 * 224) (Fin 0)),
                    dims = [1, 3, 224, 224]\<rparr>"

definition world0 :: world where
  "world0 =
     \<lparr>sharp_metadata = (\<lambda>p. Inr ()),
      sharp_raw = (\<lambda>p. Inr black_image),
      clock_before = 1000, clock_after = 1042,
      ort_create = (\<lambda>bytes. if bytes = [] then Inl (OrtError ''empty model'') else Inr (const_session [Fin 0.9])),
      https_get = (\<lambda>url. Response 200 [] [1, 2, 3]),
      unlink_error = (\<lambda>p. None)\<rparr>"

definition loaded :: "jsnum list \<Rightarrow> manager" where
  "loaded out = (constructor Map.empty True)\<lparr>sessionONNX := Some (const_session out)\<rparr>"

text \<open>A session whose every run throws.\<close>

definition broken_session :: session where
  "broken_session =
     \<lparr>inputNames = [''input''], outputNames = [''output''],
      run = (\<lambda>name t. Inl (OrtError ''invalid dimensions for input''))\<rparr>"

text \<open>Worlds whose network gives one answer to every request, or a redirect first.\<close>

definition answering :: "http_exchange \<Rightarrow> world" where
  "answering x = world0\<lparr>https_get := (\<lambda>url. x)\<rparr>"

definition redirecting :: "nat \<Rightarrow> string \<Rightarrow> http_exchange \<Rightarrow> world" where
  "redirecting code location x =
     world0\<lparr>https_get := (\<lambda>url. if url = modelPath then Response code location [] else x)\<rparr>"


definition failed :: "nat \<Rightarrow> manager" where
  "failed n = \<lparr>sessionONNX = None, modelLoadAttempts = n, maxLoadAttempts = 3, isLoading = False,
               files = Map.empty, cacheDirExists = True, timers = []\<rparr>"



section \<open>Properties of preprocessing\<close>

lemma batch_cond: "int b < \<lceil>real totalPixels / real batchSize\<rceil> \<longleftrightarrow> b * batchSize < totalPixels"
proof -
  have pos: "0 < real batchSize" by (simp add: batchSize_def)
  have "int b < \<lceil>real totalPixels / real batchSize\<rceil> \<longleftrightarrow> real b < real totalPixels / real batchSize"
    by (simp add: less_ceiling_iff)
  also have "\<dots> \<longleftrightarrow> real b * real batchSize < real totalPixels"
    using pos by (simp add: pos_less_divide_eq)
  also have "\<dots> \<longleftrightarrow> b * batchSize < totalPixels"
    by (metis of_nat_less_iff of_nat_mult)
  finally show ?thesis .
qed

lemma length_store_pixel [simp]: "length (store_pixel buffer i d) = length d"
  by (simp add: store_pixel_def Let_def)

lemma length_pixel_loop [simp]: "length (pixel_loop buffer e i d) = length d"
  by (induction buffer e i d rule: pixel_loop.induct) (simp add: pixel_loop.simps)

lemma length_batch_loop [simp]: "length (batch_loop buffer b d) = length d"
  by (induction buffer b d rule: batch_loop.induct) (simp add: batch_loop.simps Let_def)

lemma store_pixel_nth:
  assumes "length d = 3 * totalPixels" "i < totalPixels" "k < totalPixels" "c < 3"
  shows "store_pixel buffer i d ! (c * totalPixels + k) =
         (if k = i then norm_at buffer c i else d ! (c * totalPixels + k))"
proof -
  consider "c = 0" | "c = 1" | "c = 2" using assms(4) by linarith
  then show ?thesis
  proof cases
    case 1
    with assms show ?thesis
      by (simp add: store_pixel_def Let_def norm_at_def nth_list_update mult.commute)
  next
    case 2
    with assms show ?thesis
      by (simp add: store_pixel_def Let_def norm_at_def nth_list_update mult.commute add.commute)
  next
    case 3
    with assms show ?thesis
      by (simp add: store_pixel_def Let_def norm_at_def nth_list_update mult.commute add.commute)
  qed
qed

lemma pixel_loop_nth:
  "length d = 3 * totalPixels \<Longrightarrow> e \<le> totalPixels \<Longrightarrow> k < totalPixels \<Longrightarrow> c < 3 \<Longrightarrow>
   pixel_loop buffer e i d ! (c * totalPixels + k) =
     (if i \<le> k \<and> k < e then norm_at buffer c k else d ! (c * totalPixels + k))"
proof (induction buffer e i d rule: pixel_loop.induct)
  case (1 buffer endIdx i float32Data)
  show ?case
  proof (cases "i < endIdx")
    case True
    then have i: "i < totalPixels" using "1.prems" by linarith
    have "pixel_loop buffer endIdx i float32Data ! (c * totalPixels + k) =
          pixel_loop buffer endIdx (i + 1) (store_pixel buffer i float32Data) ! (c * totalPixels + k)"
      using True by (subst pixel_loop.simps) simp
    also have "\<dots> = (if i + 1 \<le> k \<and> k < endIdx then norm_at buffer c k
                      else store_pixel buffer i float32Data ! (c * totalPixels + k))"
      using "1.IH" [OF True] "1.prems" by simp
    also have "\<dots> = (if i \<le> k \<and> k < endIdx then norm_at buffer c k
                      else float32Data ! (c * totalPixels + k))"
      using store_pixel_nth [OF "1.prems"(1) i "1.prems"(3,4), of buffer] True by auto
    finally show ?thesis .
  next
    case False
    then show ?thesis by (subst pixel_loop.simps) auto
  qed
qed

lemma batch_loop_nth:
  "length d = 3 * totalPixels \<Longrightarrow> k < totalPixels \<Longrightarrow> c < 3 \<Longrightarrow>
   batch_loop buffer b d ! (c * totalPixels + k) =
     (if b * batchSize \<le> k then norm_at buffer c k else d ! (c * totalPixels + k))"
proof (induction buffer b d rule: batch_loop.induct)
  case (1 buffer batch float32Data)
  let ?s = "batch * batchSize"
  let ?e = "min (?s + batchSize) totalPixels"
  show ?case
  proof (cases "?s < totalPixels")
    case True
    then have cond: "int batch < \<lceil>real totalPixels / real batchSize\<rceil>"
      by (simp add: batch_cond)
    have "batch_loop buffer batch float32Data ! (c * totalPixels + k) =
          batch_loop buffer (batch + 1) (pixel_loop buffer ?e ?s float32Data) ! (c * totalPixels + k)"
      using cond by (subst batch_loop.simps) (simp add: Let_def)
    also have "\<dots> = (if (batch + 1) * batchSize \<le> k then norm_at buffer c k
                      else pixel_loop buffer ?e ?s float32Data ! (c * totalPixels + k))"
      using "1.IH" [OF cond refl refl] "1.prems" by simp
    also have "\<dots> = (if ?s \<le> k then norm_at buffer c k else float32Data ! (c * totalPixels + k))"
      using pixel_loop_nth [OF "1.prems"(1) _ "1.prems"(2,3), of ?e buffer ?s] "1.prems"(2)
      by auto
    finally show ?thesis .
  next
    case False
    then have "\<not> int batch < \<lceil>real totalPixels / real batchSize\<rceil>"
      by (simp add: batch_cond)
    then show ?thesis using False "1.prems"(2) by (subst batch_loop.simps) auto
  qed
qed

lemma batch_loop_all:
  assumes "length d = 3 * totalPixels" "j < 3 * totalPixels"
  shows "batch_loop buffer 0 d ! j = norm_at buffer (j div totalPixels) (j mod totalPixels)"
proof -
  have tp: "0 < totalPixels" by (simp add: totalPixels_def)
  have c: "j div totalPixels < 3" using assms(2) tp
    by (simp add: less_mult_imp_div_less mult.commute)
  have k: "j mod totalPixels < totalPixels" using tp by simp
  have "batch_loop buffer 0 d ! (j div totalPixels * totalPixels + j mod totalPixels) =
        norm_at buffer (j div totalPixels) (j mod totalPixels)"
    using batch_loop_nth [OF assms(1) k c, of buffer 0] by simp
  then show ?thesis by simp
qed

lemma preprocessImage_try_ok:
  assumes "sharp_metadata w p = Inr info" "sharp_raw w p = Inr buffer" "length buffer = expectedSize"
  shows "preprocessImage w p =
         Inr \<lparr>tdata = batch_loop buffer 0 (replicate (3 * 224 * 224) (Fin 0)), dims = [1, 3, 224, 224]\<rparr>"
  using assms by (simp add: preprocessImage_def preprocessImage_try_def Let_def)

lemma preprocessImage_Inr_shape:
  assumes "preprocessImage w p = Inr t"
  shows "\<exists>buffer. length buffer = expectedSize \<and>
           t = \<lparr>tdata = batch_loop buffer 0 (replicate (3 * 224 * 224) (Fin 0)), dims = [1, 3, 224, 224]\<rparr>"
  using assms
  by (auto simp: preprocessImage_def preprocessImage_try_def Let_def split: sum.splits if_splits)

lemma batch_loop_finite:
  assumes "v \<in> set (batch_loop buffer 0 (replicate (3 * 224 * 224) (Fin 0)))"
  shows "isFinite v \<and> \<not> isNaN v"
proof -
  let ?d = "replicate (3 * 224 * 224) (Fin 0)"
  have len: "length ?d = 3 * totalPixels" by (simp add: totalPixels_def)
  from assms obtain j where j: "j < length (batch_loop buffer 0 ?d)" "v = batch_loop buffer 0 ?d ! j"
    by (metis in_set_conv_nth)
  then have "j < 3 * totalPixels" using len by simp
  then have "v = norm_at buffer (j div totalPixels) (j mod totalPixels)"
    using batch_loop_all [OF len] j(2) by simp
  then show ?thesis by (simp add: norm_at_def)
qed

lemma preprocessImage_validates:
  assumes "preprocessImage w p = Inr t"
  shows "validateModelInput t = Inr True"
proof -
  from preprocessImage_Inr_shape [OF assms] obtain buffer where
    t: "t = \<lparr>tdata = batch_loop buffer 0 (replicate (3 * 224 * 224) (Fin 0)), dims = [1, 3, 224, 224]\<rparr>"
    by blast
  have "\<not> list_ex (\<lambda>v. \<not> isFinite v \<or> isNaN v) (tdata t)"
    unfolding list_ex_iff using batch_loop_finite t by auto
  then show ?thesis by (simp add: validateModelInput_def Let_def)
qed

text \<open>
  Claim C3. A decoded interleaved RGB buffer of exactly \<open>224 * 224 * 3\<close> bytes is turned
  into a tensor of dims \<open>[1, 3, 224, 224]\<close> in channel-planar order: for every pixel
  \<open>i < 224 * 224\<close> and channel \<open>c < 3\<close> the value at \<open>c * 224 * 224 + i\<close> is
  \<open>(buffer[3 * i + c] / 255 - mean[c]) / std[c]\<close>, with the published means and standard
  deviations, so red fills the first block, green the second and blue the third.
\<close>

theorem preprocessImage_planar:
  assumes "sharp_metadata w p = Inr info"
      and "sharp_raw w p = Inr buffer"
      and "length buffer = 224 * 224 * 3"
  shows "\<exists>t. preprocessImage w p = Inr t \<and> dims t = [1, 3, 224, 224] \<and>
             length (tdata t) = 3 * 224 * 224 \<and>
             (\<forall>i < 224 * 224. \<forall>c < 3.
                tdata t ! (c * (224 * 224) + i) =
                  Fin ((real (unat (buffer ! (3 * i + c))) / 255 - [0.485, 0.456, 0.406] ! c)
                       / [0.229, 0.224, 0.225] ! c))"
proof -
  let ?d = "replicate (3 * 224 * 224) (Fin 0) :: jsnum list"
  let ?t = "\<lparr>tdata = batch_loop buffer 0 ?d, dims = [1, 3, 224, 224]\<rparr>"
  have len: "length ?d = 3 * totalPixels" by (simp add: totalPixels_def)
  have pre: "preprocessImage w p = Inr ?t"
    using assms by (intro preprocessImage_try_ok) (simp_all add: expectedSize_def)
  have nth: "tdata ?t ! (c * (224 * 224) + i) =
               Fin ((real (unat (buffer ! (3 * i + c))) / 255 - [0.485, 0.456, 0.406] ! c)
                    / [0.229, 0.224, 0.225] ! c)"
    if "i < 224 * 224" "c < 3" for i c
  proof -
    have i: "i < totalPixels" using that(1) by (simp add: totalPixels_def)
    have "batch_loop buffer 0 ?d ! (c * totalPixels + i) = norm_at buffer c i"
      using batch_loop_nth [OF len i that(2), of buffer 0] by simp
    then show ?thesis by (simp add: norm_at_def totalPixels_def mean_def std_def)
  qed
  show ?thesis
    using pre nth by (intro exI [of _ ?t]) simp
qed

theorem preprocessImage_planar_witness:
  "length black_image = 224 * 224 * 3 \<and>
   (\<exists>t. preprocessImage world0 ''eye.jpg'' = Inr t \<and> dims t = [1, 3, 224, 224] \<and>
        length (tdata t) = 3 * 224 * 224 \<and>
        tdata t ! 0 = Fin ((0 / 255 - 0.485) / 0.229) \<and>
        tdata t ! (224 * 224) = Fin ((0 / 255 - 0.456) / 0.224) \<and>
        tdata t ! (2 * (224 * 224) + 7) = Fin ((0 / 255 - 0.406) / 0.225))"
proof -
  have len: "length black_image = 224 * 224 * 3" by (simp add: black_image_def)
  have m: "sharp_metadata world0 ''eye.jpg'' = Inr ()" by (simp add: world0_def)
  have r: "sharp_raw world0 ''eye.jpg'' = Inr black_image" by (simp add: world0_def)
  from preprocessImage_planar [OF m r len] obtain t where
    t: "preprocessImage world0 ''eye.jpg'' = Inr t" "dims t = [1, 3, 224, 224]"
       "length (tdata t) = 3 * 224 * 224"
       "\<forall>i < 224 * 224. \<forall>c < 3.
                tdata t ! (c * (224 * 224) + i) =
                  Fin ((real (unat (black_image ! (3 * i + c))) / 255 - [0.485, 0.456, 0.406] ! c)
                       / [0.229, 0.224, 0.225] ! c)"
    by blast
  have b: "black_image ! k = 0" if "k < 150528" for k
    using that by (simp add: black_image_def)
  have "tdata t ! (0 * (224 * 224) + 0) = Fin ((0 / 255 - 0.485) / 0.229)"
    using t(4) [rule_format, of 0 0] b [of 0] by simp
  moreover have "tdata t ! (1 * (224 * 224) + 0) = Fin ((0 / 255 - 0.456) / 0.224)"
    using t(4) [rule_format, of 0 1] b [of 1] by simp
  moreover have "tdata t ! (2 * (224 * 224) + 7) = Fin ((0 / 255 - 0.406) / 0.225)"
    using t(4) [rule_format, of 7 2] b [of 23] by simp
  ultimately show ?thesis using len t(1,2,3) by auto
qed

text \<open>
  Claim C4. A decoded buffer whose length is not \<open>224 * 224 * 3\<close> makes preprocessing
  throw and yields no tensor: the result is the preprocessing error, and when the metadata
  call went through it is the one wrapping the size mismatch. Nothing is cut or padded.
\<close>

theorem preprocessImage_size_mismatch:
  assumes "sharp_raw w p = Inr buffer" and "length buffer \<noteq> 224 * 224 * 3"
  shows "(\<exists>e. preprocessImage w p = Inl (PreprocessingFailed e)) \<and>
         (\<forall>info. sharp_metadata w p = Inr info \<longrightarrow>
            preprocessImage w p =
              Inl (PreprocessingFailed (BufferSizeMismatch (224 * 224 * 3) (length buffer))))"
  using assms
  by (auto simp: preprocessImage_def preprocessImage_try_def expectedSize_def split: sum.splits)

theorem preprocessImage_size_mismatch_witness:
  "sharp_raw (world0\<lparr>sharp_raw := (\<lambda>p. Inr [1, 2, 3])\<rparr>) ''eye.jpg'' = Inr [1, 2, 3] \<and>
   length [1, 2, 3 :: byte] \<noteq> 224 * 224 * 3 \<and>
   preprocessImage (world0\<lparr>sharp_raw := (\<lambda>p. Inr [1, 2, 3])\<rparr>) ''eye.jpg'' =
     Inl (PreprocessingFailed (BufferSizeMismatch (224 * 224 * 3) 3))"
proof -
  let ?w = "world0\<lparr>sharp_raw := (\<lambda>p. Inr [1, 2, 3])\<rparr>"
  have r: "sharp_raw ?w ''eye.jpg'' = Inr [1, 2, 3]" by simp
  have n: "length [1, 2, 3 :: byte] \<noteq> 224 * 224 * 3" by simp
  have m: "sharp_metadata ?w ''eye.jpg'' = Inr ()" by (simp add: world0_def)
  show ?thesis
    using preprocessImage_size_mismatch [OF r n] m r n by simp
qed

section \<open>Properties of prediction\<close>

lemma predict_no_session:
  "sessionONNX m = None \<Longrightarrow> predict w m p = Inr default_prediction"
  by (simp add: predict_def predict_try_def)

lemma predict_caught:
  "predict_try w m p = Inl e \<Longrightarrow> predict w m p = Inr (default_prediction\<lparr>error := Some e\<rparr>)"
  by (simp add: predict_def)

lemma predict_try_preprocess_error:
  "sessionONNX m = Some sess \<Longrightarrow> preprocessImage w p = Inl e \<Longrightarrow> predict_try w m p = Inl e"
  by (simp add: predict_try_def)

lemma predict_try_run_error:
  "sessionONNX m = Some sess \<Longrightarrow> preprocessImage w p = Inr t \<Longrightarrow>
   run sess (first_name (inputNames sess)) t = Inl e \<Longrightarrow> predict_try w m p = Inl e"
  by (simp add: predict_try_def preprocessImage_validates Let_def)

lemma predict_try_success:
  assumes "sessionONNX m = Some sess"
      and "preprocessImage w p = Inr t"
      and "run sess (first_name (inputNames sess)) t = Inr results"
      and "results (first_name (outputNames sess)) = Some out"
  shows "predict_try w m p =
         Inr \<lparr>prediction = (if js_gt (first_value (tdata out)) 0.5 then ''Non-anemic'' else ''Anemic''),
              confidence = first_value (tdata out),
              usingDefaultPrediction = False,
              modelSource = getModelSource m,
              debug = Some \<lparr>rawOutput = tdata out, outputShape = dims out,
                             inferenceTime = clock_after w - clock_before w\<rparr>,
              error = None\<rparr>"
  using assms by (simp add: predict_try_def preprocessImage_validates Let_def)

lemma predict_try_Inr:
  assumes "predict_try w m p = Inr r"
  shows "r = default_prediction \<and> sessionONNX m = None \<or>
         (\<exists>raw sh tm. sessionONNX m \<noteq> None \<and> r = \<lparr>prediction = (if js_gt (first_value raw) 0.5 then ''Non-anemic'' else ''Anemic''),
              confidence = first_value raw,
              usingDefaultPrediction = False,
              modelSource = getModelSource m,
              debug = Some \<lparr>rawOutput = raw, outputShape = sh, inferenceTime = tm\<rparr>,
              error = None\<rparr>)"
proof (cases "sessionONNX m")
  case None
  then show ?thesis using assms by (simp add: predict_try_def)
next
  case (Some sess)
  then obtain t where t: "preprocessImage w p = Inr t"
    using assms by (cases "preprocessImage w p") (simp_all add: predict_try_def)
  obtain results where res: "run sess (first_name (inputNames sess)) t = Inr results"
    using assms Some t
    by (cases "run sess (first_name (inputNames sess)) t")
       (simp_all add: predict_try_def preprocessImage_validates Let_def)
  obtain out where out: "results (first_name (outputNames sess)) = Some out"
    using assms Some t res
    by (cases "results (first_name (outputNames sess))")
       (simp_all add: predict_try_def preprocessImage_validates Let_def)
  have "r = \<lparr>prediction = (if js_gt (first_value (tdata out)) 0.5 then ''Non-anemic'' else ''Anemic''),
              confidence = first_value (tdata out),
              usingDefaultPrediction = False,
              modelSource = getModelSource m,
              debug = Some \<lparr>rawOutput = tdata out, outputShape = dims out,
                             inferenceTime = clock_after w - clock_before w\<rparr>,
              error = None\<rparr>"
    using predict_try_success [OF Some t res out] assms by simp
  then show ?thesis using Some by blast
qed

lemma black_preprocess: "preprocessImage world0 p = Inr black_tensor"
  unfolding black_tensor_def
  by (rule preprocessImage_try_ok [where info = "()"])
     (simp_all add: world0_def black_image_def expectedSize_def)

lemma predict_const_session:
  "predict world0 (loaded out) p =
     Inr \<lparr>prediction = (if js_gt (first_value out) 0.5 then ''Non-anemic'' else ''Anemic''),
          confidence = first_value out,
          usingDefaultPrediction = False,
          modelSource = ''none'',
          debug = Some \<lparr>rawOutput = out, outputShape = [1, 1], inferenceTime = 42\<rparr>,
          error = None\<rparr>"
proof -
  have s: "sessionONNX (loaded out) = Some (const_session out)"
    by (simp add: loaded_def)
  have r: "run (const_session out) (first_name (inputNames (const_session out))) black_tensor =
           Inr [''output'' \<mapsto> \<lparr>tdata = out, dims = [1, 1]\<rparr>]"
    by (simp add: const_session_def)
  have o: "[''output'' \<mapsto> \<lparr>tdata = out, dims = [1, 1]\<rparr>] (first_name (outputNames (const_session out)))
           = Some \<lparr>tdata = out, dims = [1, 1]\<rparr>"
    by (simp add: const_session_def)
  have src: "getModelSource (loaded out) = ''none''"
    by (simp add: getModelSource_def existsSync_def loaded_def constructor_def)
  show ?thesis
    using predict_try_success [OF s black_preprocess r o] src
    by (simp add: predict_def world0_def)
qed

text \<open>
  Claim C1. For every world, manager and image path, \<open>predict\<close> returns a result
  and never throws. Its label is one of the two labels. With no session loaded the result
  is the cautious default (Anemic, 0.8, default flag set, source none), whatever the image
  library would have answered, so preprocessing is not attempted. Whatever the try block
  throws, in particular an error of preprocessing or of the inference run, is caught and
  becomes the same default carrying that error.
\<close>

theorem predict_never_throws:
  "\<exists>r. predict w m p = Inr r \<and>
       (prediction r = ''Anemic'' \<or> prediction r = ''Non-anemic'') \<and>
       (sessionONNX m = None \<longrightarrow>
          r = \<lparr>prediction = ''Anemic'', confidence = Some (Fin 0.8), usingDefaultPrediction = True,
               modelSource = ''none'', debug = None, error = None\<rparr>) \<and>
       (\<forall>e. predict_try w m p = Inl e \<longrightarrow>
          r = \<lparr>prediction = ''Anemic'', confidence = Some (Fin 0.8), usingDefaultPrediction = True,
               modelSource = ''none'', debug = None, error = Some e\<rparr>) \<and>
       (\<forall>sess e. sessionONNX m = Some sess \<and> preprocessImage w p = Inl e \<longrightarrow>
          r = \<lparr>prediction = ''Anemic'', confidence = Some (Fin 0.8), usingDefaultPrediction = True,
               modelSource = ''none'', debug = None, error = Some e\<rparr>) \<and>
       (\<forall>sess t e. sessionONNX m = Some sess \<and> preprocessImage w p = Inr t \<and>
                   run sess (first_name (inputNames sess)) t = Inl e \<longrightarrow>
          r = \<lparr>prediction = ''Anemic'', confidence = Some (Fin 0.8), usingDefaultPrediction = True,
               modelSource = ''none'', debug = None, error = Some e\<rparr>)"
proof (cases "predict_try w m p")
  case (Inl e)
  then have "predict w m p = Inr (default_prediction\<lparr>error := Some e\<rparr>)"
    by (rule predict_caught)
  moreover have "sessionONNX m \<noteq> None"
    using Inl by (auto simp: predict_try_def split: option.splits)
  moreover have "e' = e" if "sessionONNX m = Some sess" "preprocessImage w p = Inl e'" for sess e'
    using predict_try_preprocess_error [OF that] Inl by simp
  moreover have "e' = e"
    if "sessionONNX m = Some sess" "preprocessImage w p = Inr t"
       "run sess (first_name (inputNames sess)) t = Inl e'" for sess t e'
    using predict_try_run_error [OF that] Inl by simp
  ultimately show ?thesis
    using Inl by (auto simp: default_prediction_def)
next
  case (Inr r)
  then have p: "predict w m p = Inr r" by (simp add: predict_def)
  have no_pre: "\<not> (sessionONNX m = Some sess \<and> preprocessImage w p = Inl e)" for sess e
    using predict_try_preprocess_error [of m sess w p e] Inr by auto
  have no_run: "\<not> (sessionONNX m = Some sess \<and> preprocessImage w p = Inr t \<and>
                   run sess (first_name (inputNames sess)) t = Inl e)" for sess t e
    using predict_try_run_error [of m sess w p t e] Inr by auto
  from predict_try_Inr [OF Inr] show ?thesis
  proof
    assume "r = default_prediction \<and> sessionONNX m = None"
    then show ?thesis using p Inr by (auto simp: default_prediction_def)
  next
    assume "\<exists>raw sh tm. sessionONNX m \<noteq> None \<and> r = \<lparr>prediction = (if js_gt (first_value raw) 0.5 then ''Non-anemic'' else ''Anemic''),
              confidence = first_value raw,
              usingDefaultPrediction = False,
              modelSource = getModelSource m,
              debug = Some \<lparr>rawOutput = raw, outputShape = sh, inferenceTime = tm\<rparr>,
              error = None\<rparr>"
    then show ?thesis using p Inr no_pre no_run by auto
  qed
qed

theorem predict_never_throws_witness:
  "sessionONNX (constructor Map.empty True) = None \<and>
   predict world0 (constructor Map.empty True) ''eye.jpg'' =
     Inr \<lparr>prediction = ''Anemic'', confidence = Some (Fin 0.8), usingDefaultPrediction = True,
          modelSource = ''none'', debug = None, error = None\<rparr> \<and>
   preprocessImage (world0\<lparr>sharp_raw := (\<lambda>p. Inl (SharpError ''unsupported image format''))\<rparr>)
       ''eye.jpg'' = Inl (PreprocessingFailed (SharpError ''unsupported image format'')) \<and>
   predict (world0\<lparr>sharp_raw := (\<lambda>p. Inl (SharpError ''unsupported image format''))\<rparr>)
       (loaded [Fin 0.9]) ''eye.jpg'' =
     Inr \<lparr>prediction = ''Anemic'', confidence = Some (Fin 0.8), usingDefaultPrediction = True,
          modelSource = ''none'', debug = None,
          error = Some (PreprocessingFailed (SharpError ''unsupported image format''))\<rparr> \<and>
   run broken_session (first_name (inputNames broken_session)) black_tensor =
     Inl (OrtError ''invalid dimensions for input'') \<and>
   predict world0 ((constructor Map.empty True)\<lparr>sessionONNX := Some broken_session\<rparr>) ''eye.jpg'' =
     Inr \<lparr>prediction = ''Anemic'', confidence = Some (Fin 0.8), usingDefaultPrediction = True,
          modelSource = ''none'', debug = None,
          error = Some (OrtError ''invalid dimensions for input'')\<rparr>"
proof -
  let ?m0 = "constructor Map.empty True"
  let ?m2 = "(constructor Map.empty True)\<lparr>sessionONNX := Some broken_session\<rparr>"
  let ?w1 = "world0\<lparr>sharp_raw := (\<lambda>p. Inl (SharpError ''unsupported image format''))\<rparr>"
  let ?e = "PreprocessingFailed (SharpError ''unsupported image format'')"
  let ?e2 = "OrtError ''invalid dimensions for input''"
  have s0: "sessionONNX ?m0 = None" by (simp add: constructor_def)
  have s1: "sessionONNX (loaded [Fin 0.9]) = Some (const_session [Fin 0.9])"
    by (simp add: loaded_def)
  have s2: "sessionONNX ?m2 = Some broken_session" by simp
  have pre: "preprocessImage ?w1 ''eye.jpg'' = Inl ?e"
    by (simp add: preprocessImage_def preprocessImage_try_def world0_def)
  have r: "run broken_session (first_name (inputNames broken_session)) black_tensor = Inl ?e2"
    by (simp add: broken_session_def)
  have a: "predict world0 ?m0 ''eye.jpg'' =
     Inr \<lparr>prediction = ''Anemic'', confidence = Some (Fin 0.8), usingDefaultPrediction = True,
          modelSource = ''none'', debug = None, error = None\<rparr>"
    using predict_never_throws [of world0 ?m0 "''eye.jpg''"] s0 by auto
  have b: "predict ?w1 (loaded [Fin 0.9]) ''eye.jpg'' =
     Inr \<lparr>prediction = ''Anemic'', confidence = Some (Fin 0.8), usingDefaultPrediction = True,
          modelSource = ''none'', debug = None, error = Some ?e\<rparr>"
    using predict_never_throws [of ?w1 "loaded [Fin 0.9]" "''eye.jpg''"] s1 pre by auto
  have c: "predict world0 ?m2 ''eye.jpg'' =
     Inr \<lparr>prediction = ''Anemic'', confidence = Some (Fin 0.8), usingDefaultPrediction = True,
          modelSource = ''none'', debug = None, error = Some ?e2\<rparr>"
    using predict_never_throws [of world0 ?m2 "''eye.jpg''"] s2 r
          black_preprocess [of "''eye.jpg''"] by auto
  show ?thesis using s0 a pre b r c by blast
qed

text \<open>
  Claim C2. When inference produces a raw score, the label is Non-anemic if the score is
  strictly greater than 0.5 and Anemic otherwise, and the confidence is the raw score
  itself in both branches. The scores 0.50001 and 0.49999 get different labels.
\<close>

theorem predict_decision_rule:
  assumes "sessionONNX m = Some sess"
      and "preprocessImage w p = Inr t"
      and "run sess (first_name (inputNames sess)) t = Inr results"
      and "results (first_name (outputNames sess)) = Some out"
      and "tdata out = raw # rest"
  shows "\<exists>r. predict w m p = Inr r \<and> \<not> usingDefaultPrediction r \<and>
             confidence r = Some raw \<and>
             prediction r = (if js_gt (Some raw) 0.5 then ''Non-anemic'' else ''Anemic'') \<and>
             (\<forall>x. raw = Fin x \<longrightarrow>
                prediction r = (if x > 0.5 then ''Non-anemic'' else ''Anemic'') \<and>
                confidence r = Some (Fin x))"
  using predict_try_success [OF assms(1-4)] assms(5)
  by (auto simp: predict_def)

theorem predict_decision_rule_witness:
  "predict world0 (loaded [Fin 0.50001]) ''eye.jpg'' =
     Inr \<lparr>prediction = ''Non-anemic'', confidence = Some (Fin 0.50001),
          usingDefaultPrediction = False, modelSource = ''none'',
          debug = Some \<lparr>rawOutput = [Fin 0.50001], outputShape = [1, 1], inferenceTime = 42\<rparr>,
          error = None\<rparr> \<and>
   predict world0 (loaded [Fin 0.49999]) ''eye.jpg'' =
     Inr \<lparr>prediction = ''Anemic'', confidence = Some (Fin 0.49999),
          usingDefaultPrediction = False, modelSource = ''none'',
          debug = Some \<lparr>rawOutput = [Fin 0.49999], outputShape = [1, 1], inferenceTime = 42\<rparr>,
          error = None\<rparr>"
proof -
  have s: "sessionONNX (loaded out) = Some (const_session out)" for out
    by (simp add: loaded_def)
  have r: "run (const_session out) (first_name (inputNames (const_session out))) black_tensor =
           Inr [''output'' \<mapsto> \<lparr>tdata = out, dims = [1, 1]\<rparr>]" for out
    by (simp add: const_session_def)
  have o: "[''output'' \<mapsto> \<lparr>tdata = out, dims = [1, 1]\<rparr>] (first_name (outputNames (const_session out)))
           = Some \<lparr>tdata = out, dims = [1, 1]\<rparr>" for out
    by (simp add: const_session_def)
  have hi: "tdata \<lparr>tdata = [Fin 0.50001], dims = [1, 1]\<rparr> = Fin 0.50001 # []" by simp
  have lo: "tdata \<lparr>tdata = [Fin 0.49999], dims = [1, 1]\<rparr> = Fin 0.49999 # []" by simp
  show ?thesis
    using predict_decision_rule [OF s black_preprocess r o hi, of "''eye.jpg''"]
          predict_decision_rule [OF s black_preprocess r o lo, of "''eye.jpg''"]
          predict_const_session [of "[Fin 0.50001]" "''eye.jpg''"]
          predict_const_session [of "[Fin 0.49999]" "''eye.jpg''"]
    by simp
qed

text \<open>
  Claim C7 as stated fails: a session whose output is 1.5 makes \<open>predict\<close> report the
  confidence 1.5.
\<close>

theorem predict_confidence_counterexample:
  "predict world0 (loaded [Fin 1.5]) ''eye.jpg'' =
     Inr \<lparr>prediction = ''Non-anemic'', confidence = Some (Fin 1.5),
          usingDefaultPrediction = False, modelSource = ''none'',
          debug = Some \<lparr>rawOutput = [Fin 1.5], outputShape = [1, 1], inferenceTime = 42\<rparr>,
          error = None\<rparr> \<and>
   \<not> in_unit_interval (Some (Fin 1.5))"
  using predict_const_session [of "[Fin 1.5]" "''eye.jpg''"] by simp

lemma predict_try_no_output:
  "sessionONNX m = Some sess \<Longrightarrow> preprocessImage w p = Inr t \<Longrightarrow>
   run sess (first_name (inputNames sess)) t = Inr results \<Longrightarrow>
   results (first_name (outputNames sess)) = None \<Longrightarrow>
   predict_try w m p = Inl (TypeError ''Cannot read properties of undefined'')"
  by (simp add: predict_try_def preprocessImage_validates Let_def)

text \<open>
  Claim C7, as amended. \<open>predict\<close> always returns one of the two labels. With no
  session, or when preprocessing throws, or the run throws, or the run yields no output
  tensor under the first output name, the result is a default one and its confidence is
  0.8. In the one remaining case, where the session's run yields an output tensor, the
  result is not a default one and its confidence is the first value of that tensor,
  unchanged; it lies in the unit interval exactly when that raw score does.
\<close>

theorem predict_range:
  "\<exists>r. predict w m p = Inr r \<and>
       (prediction r = ''Anemic'' \<or> prediction r = ''Non-anemic'') \<and>
       (sessionONNX m = None \<longrightarrow>
          usingDefaultPrediction r \<and> confidence r = Some (Fin 0.8)) \<and>
       (\<forall>sess e. sessionONNX m = Some sess \<and> preprocessImage w p = Inl e \<longrightarrow>
          usingDefaultPrediction r \<and> confidence r = Some (Fin 0.8)) \<and>
       (\<forall>sess t e. sessionONNX m = Some sess \<and> preprocessImage w p = Inr t \<and>
                   run sess (first_name (inputNames sess)) t = Inl e \<longrightarrow>
          usingDefaultPrediction r \<and> confidence r = Some (Fin 0.8)) \<and>
       (\<forall>sess t results. sessionONNX m = Some sess \<and> preprocessImage w p = Inr t \<and>
                   run sess (first_name (inputNames sess)) t = Inr results \<and>
                   results (first_name (outputNames sess)) = None \<longrightarrow>
          usingDefaultPrediction r \<and> confidence r = Some (Fin 0.8)) \<and>
       (\<forall>sess t results out. sessionONNX m = Some sess \<and> preprocessImage w p = Inr t \<and>
                   run sess (first_name (inputNames sess)) t = Inr results \<and>
                   results (first_name (outputNames sess)) = Some out \<longrightarrow>
          \<not> usingDefaultPrediction r \<and> confidence r = first_value (tdata out) \<and>
          in_unit_interval (confidence r) = in_unit_interval (first_value (tdata out)))"
proof (cases "sessionONNX m")
  case None
  then show ?thesis
    using predict_no_session [of m w p] by (simp add: default_prediction_def)
next
  case (Some sess)
  show ?thesis
  proof (cases "preprocessImage w p")
    case (Inl e)
    have "predict w m p = Inr (default_prediction\<lparr>error := Some e\<rparr>)"
      using predict_caught [OF predict_try_preprocess_error [OF Some Inl]] .
    then show ?thesis using Some Inl by (simp add: default_prediction_def)
  next
    case t: (Inr t)
    show ?thesis
    proof (cases "run sess (first_name (inputNames sess)) t")
      case (Inl e)
      have "predict w m p = Inr (default_prediction\<lparr>error := Some e\<rparr>)"
        using predict_caught [OF predict_try_run_error [OF Some t Inl]] .
      then show ?thesis using Some t Inl by (simp add: default_prediction_def)
    next
      case res: (Inr results)
      show ?thesis
      proof (cases "results (first_name (outputNames sess))")
        case None
        have "predict w m p =
              Inr (default_prediction\<lparr>error := Some (TypeError ''Cannot read properties of undefined'')\<rparr>)"
          using predict_caught [OF predict_try_no_output [OF Some t res None]] .
        then show ?thesis using Some t res None by (simp add: default_prediction_def)
      next
        case out: (Some out)
        have "predict w m p =
              Inr \<lparr>prediction = (if js_gt (first_value (tdata out)) 0.5 then ''Non-anemic'' else ''Anemic''),
                   confidence = first_value (tdata out),
                   usingDefaultPrediction = False,
                   modelSource = getModelSource m,
                   debug = Some \<lparr>rawOutput = tdata out, outputShape = dims out,
                                  inferenceTime = clock_after w - clock_before w\<rparr>,
                   error = None\<rparr>"
          using predict_try_success [OF Some t res out] by (simp add: predict_def)
        then show ?thesis using Some t res out by simp
      qed
    qed
  qed
qed

theorem predict_range_witness:
  "sessionONNX (loaded [Fin 0.25]) = Some (const_session [Fin 0.25]) \<and>
   preprocessImage world0 ''eye.jpg'' = Inr black_tensor \<and>
   run (const_session [Fin 0.25]) (first_name (inputNames (const_session [Fin 0.25]))) black_tensor =
     Inr [''output'' \<mapsto> \<lparr>tdata = [Fin 0.25], dims = [1, 1]\<rparr>] \<and>
   predict world0 (loaded [Fin 0.25]) ''eye.jpg'' =
     Inr \<lparr>prediction = ''Anemic'', confidence = Some (Fin 0.25),
          usingDefaultPrediction = False, modelSource = ''none'',
          debug = Some \<lparr>rawOutput = [Fin 0.25], outputShape = [1, 1], inferenceTime = 42\<rparr>,
          error = None\<rparr> \<and>
   in_unit_interval (Some (Fin 0.25)) \<and>
   sessionONNX (constructor Map.empty True) = None \<and>
   predict world0 (constructor Map.empty True) ''eye.jpg'' = Inr default_prediction \<and>
   confidence default_prediction = Some (Fin 0.8)"
proof -
  let ?s = "const_session [Fin 0.25]"
  let ?out = "\<lparr>tdata = [Fin 0.25], dims = [1, 1]\<rparr>"
  have s: "sessionONNX (loaded [Fin 0.25]) = Some ?s" by (simp add: loaded_def)
  have r: "run ?s (first_name (inputNames ?s)) black_tensor = Inr [''output'' \<mapsto> ?out]"
    by (simp add: const_session_def)
  have o: "[''output'' \<mapsto> ?out] (first_name (outputNames ?s)) = Some ?out"
    by (simp add: const_session_def)
  have p: "predict world0 (loaded [Fin 0.25]) ''eye.jpg'' =
     Inr \<lparr>prediction = ''Anemic'', confidence = Some (Fin 0.25),
          usingDefaultPrediction = False, modelSource = ''none'',
          debug = Some \<lparr>rawOutput = [Fin 0.25], outputShape = [1, 1], inferenceTime = 42\<rparr>,
          error = None\<rparr>"
    using predict_const_session [of "[Fin 0.25]" "''eye.jpg''"] by simp
  from predict_range [of world0 "loaded [Fin 0.25]" "''eye.jpg''"]
  obtain r1 where r1: "predict world0 (loaded [Fin 0.25]) ''eye.jpg'' = Inr r1"
    "\<forall>sess t results out. sessionONNX (loaded [Fin 0.25]) = Some sess \<and>
        preprocessImage world0 ''eye.jpg'' = Inr t \<and>
        run sess (first_name (inputNames sess)) t = Inr results \<and>
        results (first_name (outputNames sess)) = Some out \<longrightarrow>
          \<not> usingDefaultPrediction r1 \<and> confidence r1 = first_value (tdata out) \<and>
          in_unit_interval (confidence r1) = in_unit_interval (first_value (tdata out))"
    by blast
  have "confidence r1 = first_value (tdata ?out)"
    using r1(2) s black_preprocess [of "''eye.jpg''"] r o by blast
  then have u: "in_unit_interval (Some (Fin 0.25))"
    by simp
  have s0: "sessionONNX (constructor Map.empty True) = None" by (simp add: constructor_def)
  have d: "predict world0 (constructor Map.empty True) ''eye.jpg'' = Inr default_prediction"
    using predict_range [of world0 "constructor Map.empty True" "''eye.jpg''"]
          predict_no_session [OF s0, of world0 "''eye.jpg''"] by simp
  have c: "confidence default_prediction = Some (Fin 0.8)" by (simp add: default_prediction_def)
  show ?thesis using s black_preprocess [of "''eye.jpg''"] r p u s0 d c by blast
qed

section \<open>Properties of the source tag and of the cache\<close>

lemma paths_differ: "cachedModelPath \<noteq> localModelPath"
  by (simp add: cachedModelPath_def localModelPath_def)

lemma predict_modelSource:
  assumes "predict w m p = Inr r" "\<not> usingDefaultPrediction r"
  shows "modelSource r = getModelSource m"
proof (cases "predict_try w m p")
  case (Inl e)
  then show ?thesis using assms by (auto simp: predict_def default_prediction_def)
next
  case (Inr r')
  then have "r' = r" using assms(1) by (simp add: predict_def)
  with predict_try_Inr [OF Inr] assms(2) show ?thesis
    by (auto simp: default_prediction_def)
qed

text \<open>
  Claim C10. The source tag is a function of the files alone: huggingface_cached when the
  cache file exists, otherwise local when the bundled file exists, otherwise none. Two
  managers with the same files report the same tag whatever session they hold. The status
  reports this tag, and so does every non-default result of \<open>predict\<close>.
\<close>

theorem getModelSource_from_files:
  "getModelSource m =
     (if files m cachedModelPath \<noteq> None then ''huggingface_cached''
      else if files m localModelPath \<noteq> None then ''local''
      else ''none'') \<and>
   (\<forall>m'. files m' = files m \<longrightarrow> getModelSource m' = getModelSource m) \<and>
   status_modelSource (getModelStatus m) = getModelSource m \<and>
   (\<forall>w p r. predict w m p = Inr r \<and> \<not> usingDefaultPrediction r \<longrightarrow>
      modelSource r = getModelSource m)"
proof (intro conjI allI impI)
  show "getModelSource m =
     (if files m cachedModelPath \<noteq> None then ''huggingface_cached''
      else if files m localModelPath \<noteq> None then ''local''
      else ''none'')"
    by (simp add: getModelSource_def existsSync_def)
next
  fix m' :: manager
  assume "files m' = files m"
  then show "getModelSource m' = getModelSource m"
    by (simp add: getModelSource_def existsSync_def)
next
  show "status_modelSource (getModelStatus m) = getModelSource m"
    by (simp add: getModelStatus_def)
next
  fix w p r
  assume "predict w m p = Inr r \<and> \<not> usingDefaultPrediction r"
  then show "modelSource r = getModelSource m"
    using predict_modelSource by blast
qed

theorem getModelSource_from_files_witness:
  "files ((loaded [Fin 0.9])\<lparr>files := [cachedModelPath \<mapsto> [], localModelPath \<mapsto> [7]]\<rparr>)
     cachedModelPath \<noteq> None \<and>
   getModelSource ((loaded [Fin 0.9])\<lparr>files := [cachedModelPath \<mapsto> [], localModelPath \<mapsto> [7]]\<rparr>)
     = ''huggingface_cached'' \<and>
   getModelSource (constructor [localModelPath \<mapsto> [7]] True) = ''local'' \<and>
   getModelSource (constructor Map.empty True) = ''none'' \<and>
   predict world0 (loaded [Fin 0.9]) ''eye.jpg'' =
     Inr \<lparr>prediction = ''Non-anemic'', confidence = Some (Fin 0.9),
          usingDefaultPrediction = False, modelSource = ''none'',
          debug = Some \<lparr>rawOutput = [Fin 0.9], outputShape = [1, 1], inferenceTime = 42\<rparr>,
          error = None\<rparr> \<and>
   getModelSource (loaded [Fin 0.9]) = ''none''"
proof -
  let ?m = "(loaded [Fin 0.9])\<lparr>files := [cachedModelPath \<mapsto> [], localModelPath \<mapsto> [7]]\<rparr>"
  let ?r = "\<lparr>prediction = ''Non-anemic'', confidence = Some (Fin 0.9),
          usingDefaultPrediction = False, modelSource = ''none'',
          debug = Some \<lparr>rawOutput = [Fin 0.9], outputShape = [1, 1], inferenceTime = 42\<rparr>,
          error = None\<rparr>"
  have f: "files ?m cachedModelPath \<noteq> None" using paths_differ by simp
  have a: "getModelSource ?m = ''huggingface_cached''"
    using getModelSource_from_files [of ?m, THEN conjunct1] f by simp
  have b: "getModelSource (constructor [localModelPath \<mapsto> [7]] True) = ''local''"
    using getModelSource_from_files [of "constructor [localModelPath \<mapsto> [7]] True", THEN conjunct1]
          paths_differ
    by (simp add: constructor_def)
  have c: "getModelSource (constructor Map.empty True) = ''none''"
    using getModelSource_from_files [of "constructor Map.empty True", THEN conjunct1]
    by (simp add: constructor_def)
  have p: "predict world0 (loaded [Fin 0.9]) ''eye.jpg'' = Inr ?r"
    using predict_const_session [of "[Fin 0.9]" "''eye.jpg''"] by simp
  have u: "\<not> usingDefaultPrediction ?r" by simp
  have d: "modelSource ?r = getModelSource (loaded [Fin 0.9])"
    using getModelSource_from_files [of "loaded [Fin 0.9]", THEN conjunct2, THEN conjunct2,
            THEN conjunct2, rule_format, of world0 "''eye.jpg''" ?r] p u
    by blast
  have e: "getModelSource (loaded [Fin 0.9]) = ''none''" using d by simp
  show ?thesis using f a b c p e by blast
qed

lemma predict_session_only:
  assumes "sessionONNX m' = sessionONNX m" "predict w m p = Inr r"
  shows "predict w m' p =
         Inr (if usingDefaultPrediction r then r else r\<lparr>modelSource := getModelSource m'\<rparr>)"
proof (cases "sessionONNX m")
  case None
  then show ?thesis
    using assms predict_no_session [of m w p] predict_no_session [of m' w p]
    by (auto simp: default_prediction_def)
next
  case (Some sess)
  show ?thesis
  proof (cases "preprocessImage w p")
    case (Inl e)
    then show ?thesis
      using assms Some predict_try_preprocess_error [of m sess w p e]
            predict_try_preprocess_error [of m' sess w p e]
      by (auto simp: predict_def default_prediction_def)
  next
    case t: (Inr t)
    show ?thesis
    proof (cases "run sess (first_name (inputNames sess)) t")
      case (Inl e)
      then show ?thesis
        using assms Some t predict_try_run_error [of m sess w p t e]
              predict_try_run_error [of m' sess w p t e]
        by (auto simp: predict_def default_prediction_def)
    next
      case res: (Inr results)
      show ?thesis
      proof (cases "results (first_name (outputNames sess))")
        case None
        then have "predict_try w m p = Inl (TypeError ''Cannot read properties of undefined'')"
                  "predict_try w m' p = Inl (TypeError ''Cannot read properties of undefined'')"
          using assms(1) Some t res
          by (simp_all add: predict_try_def preprocessImage_validates Let_def)
        then show ?thesis
          using assms(2) by (auto simp: predict_def default_prediction_def)
      next
        case out: (Some out)
        have s': "sessionONNX m' = Some sess" using assms(1) Some by simp
        show ?thesis
          using predict_try_success [OF Some t res out] predict_try_success [OF s' t res] out assms(2)
          by (auto simp: predict_def)
      qed
    qed
  qed
qed

lemma clearCache_cases:
  "fst (clearCache w m) = m \<or>
   fst (clearCache w m) = m\<lparr>files := (files m)(cachedModelPath := None)\<rparr> \<and> success (snd (clearCache w m))"
  by (simp add: clearCache_def split: option.splits)

lemma clearCache_success:
  "success (snd (clearCache w m)) \<Longrightarrow> files (fst (clearCache w m)) cachedModelPath = None"
  by (simp add: clearCache_def existsSync_def split: option.splits if_splits)

lemma clearCache_failure:
  "\<not> success (snd (clearCache w m)) \<Longrightarrow> fst (clearCache w m) = m"
  by (simp add: clearCache_def split: option.splits if_splits)

text \<open>
  Claim C9. \<open>clearCache\<close> leaves the session, the attempt counter, its bound, the
  loading flag, the cache directory and the timers as they were, and every file other
  than the cache file. When it reports success the cache file is gone; when it reports
  failure nothing changed. A live session keeps serving: each prediction is the one from
  before the call, up to the source tag, which follows the files.
\<close>

theorem clearCache_frame:
  "sessionONNX (fst (clearCache w m)) = sessionONNX m \<and>
   modelLoadAttempts (fst (clearCache w m)) = modelLoadAttempts m \<and>
   maxLoadAttempts (fst (clearCache w m)) = maxLoadAttempts m \<and>
   isLoading (fst (clearCache w m)) = isLoading m \<and>
   cacheDirExists (fst (clearCache w m)) = cacheDirExists m \<and>
   timers (fst (clearCache w m)) = timers m \<and>
   (\<forall>p. p \<noteq> cachedModelPath \<longrightarrow> files (fst (clearCache w m)) p = files m p) \<and>
   (success (snd (clearCache w m)) \<longrightarrow> files (fst (clearCache w m)) cachedModelPath = None) \<and>
   (\<not> success (snd (clearCache w m)) \<longrightarrow> fst (clearCache w m) = m) \<and>
   isModelReady (fst (clearCache w m)) = isModelReady m \<and>
   (\<forall>w' p r. predict w' m p = Inr r \<longrightarrow>
      predict w' (fst (clearCache w m)) p =
        Inr (if usingDefaultPrediction r then r
             else r\<lparr>modelSource := getModelSource (fst (clearCache w m))\<rparr>))"
proof -
  let ?m' = "fst (clearCache w m)"
  have sess: "sessionONNX ?m' = sessionONNX m"
    using clearCache_cases [of w m] by auto
  have att: "modelLoadAttempts ?m' = modelLoadAttempts m"
    using clearCache_cases [of w m] by auto
  have mx: "maxLoadAttempts ?m' = maxLoadAttempts m"
    using clearCache_cases [of w m] by auto
  have ld: "isLoading ?m' = isLoading m"
    using clearCache_cases [of w m] by auto
  have cd: "cacheDirExists ?m' = cacheDirExists m"
    using clearCache_cases [of w m] by auto
  have tm: "timers ?m' = timers m"
    using clearCache_cases [of w m] by auto
  have fl: "\<forall>p. p \<noteq> cachedModelPath \<longrightarrow> files ?m' p = files m p"
    using clearCache_cases [of w m] by auto
  have rdy: "isModelReady ?m' = isModelReady m"
    using sess ld by (simp add: isModelReady_def)
  have pr: "\<forall>w' p r. predict w' m p = Inr r \<longrightarrow>
      predict w' ?m' p =
        Inr (if usingDefaultPrediction r then r else r\<lparr>modelSource := getModelSource ?m'\<rparr>)"
    using predict_session_only [OF sess] by blast
  show ?thesis
    using sess att mx ld cd tm fl rdy pr clearCache_success [of w m] clearCache_failure [of w m]
    by blast
qed

theorem clearCache_frame_witness:
  "success (snd (clearCache world0 ((loaded [Fin 0.9])\<lparr>files := [cachedModelPath \<mapsto> [1]]\<rparr>))) \<and>
   files (fst (clearCache world0 ((loaded [Fin 0.9])\<lparr>files := [cachedModelPath \<mapsto> [1]]\<rparr>)))
     cachedModelPath = None \<and>
   sessionONNX (fst (clearCache world0 ((loaded [Fin 0.9])\<lparr>files := [cachedModelPath \<mapsto> [1]]\<rparr>)))
     = Some (const_session [Fin 0.9]) \<and>
   localModelPath \<noteq> cachedModelPath \<and>
   files (fst (clearCache world0 ((loaded [Fin 0.9])\<lparr>files := [cachedModelPath \<mapsto> [1]]\<rparr>)))
     localModelPath = None \<and>
   \<not> success (snd (clearCache (world0\<lparr>unlink_error := (\<lambda>p. Some ''EPERM'')\<rparr>)
                      ((loaded [Fin 0.9])\<lparr>files := [cachedModelPath \<mapsto> [1]]\<rparr>))) \<and>
   fst (clearCache (world0\<lparr>unlink_error := (\<lambda>p. Some ''EPERM'')\<rparr>)
                      ((loaded [Fin 0.9])\<lparr>files := [cachedModelPath \<mapsto> [1]]\<rparr>))
     = (loaded [Fin 0.9])\<lparr>files := [cachedModelPath \<mapsto> [1]]\<rparr>"
proof -
  let ?m = "(loaded [Fin 0.9])\<lparr>files := [cachedModelPath \<mapsto> [1]]\<rparr>"
  let ?w2 = "world0\<lparr>unlink_error := (\<lambda>p. Some ''EPERM'')\<rparr>"
  have ok: "success (snd (clearCache world0 ?m))"
    by (simp add: clearCache_def existsSync_def world0_def)
  have bad: "\<not> success (snd (clearCache ?w2 ?m))"
    by (simp add: clearCache_def existsSync_def)
  have ne: "localModelPath \<noteq> cachedModelPath" using paths_differ by simp
  have s: "sessionONNX ?m = Some (const_session [Fin 0.9])" by (simp add: loaded_def)
  have l: "files ?m localModelPath = None" using ne by simp
  note A = clearCache_frame [of world0 ?m]
  note B = clearCache_frame [of ?w2 ?m]
  have 1: "files (fst (clearCache world0 ?m)) cachedModelPath = None"
    using A ok by blast
  have 2: "sessionONNX (fst (clearCache world0 ?m)) = Some (const_session [Fin 0.9])"
    using A s by metis
  have 3: "files (fst (clearCache world0 ?m)) localModelPath = None"
    using A ne l by metis
  have 4: "fst (clearCache ?w2 ?m) = ?m"
    using B bad by blast
  show ?thesis using ok 1 2 ne 3 bad 4 by blast
qed

section \<open>Properties of acquisition\<close>

lemma https_scheme_modelPath: "https_scheme modelPath"
  by (simp add: https_scheme_def modelPath_def same_letter_def)

lemma https_scheme_relative: "\<not> https_scheme ''/api/resolve-cache/model.onnx''"
  by (simp add: https_scheme_def same_letter_def)

lemma https_scheme_http: "\<not> https_scheme ''http://cdn.example/model.onnx''"
  by (simp add: https_scheme_def same_letter_def)

lemma https_scheme_upper: "https_scheme ''HTTPS://cdn.example/model.onnx''"
  by (simp add: https_scheme_def same_letter_def)





lemma waitForLoad_idle: "\<not> isLoading m \<Longrightarrow> waitForLoad m = Some ()"
  by (subst waitForLoad.simps) simp

lemma waitForLoad_Some:
  assumes "waitForLoad m = Some u"
  shows "\<not> isLoading m"
proof (rule waitForLoad.raw_induct [where P = "\<lambda>m u. \<not> isLoading m", OF _ assms])
  fix f :: "manager \<Rightarrow> unit option" and m u
  assume "\<And>x y. f x = Some y \<Longrightarrow> \<not> isLoading x"
     and "(if \<not> isLoading m then Some () else f m) = Some u"
  then show "\<not> isLoading m" by (cases "isLoading m") auto
qed

lemma waitForLoad_stuck: "isLoading m \<Longrightarrow> waitForLoad m = None"
  using waitForLoad_Some [of m] by (cases "waitForLoad m") auto

lemma get_scheme: "https_scheme url \<Longrightarrow> https_get_call w url = https_get w url"
  by (simp add: https_get_call_def)

lemma get_no_scheme:
  "\<not> https_scheme url \<Longrightarrow> https_get_call w url = Threw (TypeError ''Invalid URL or protocol'')"
  by (simp add: https_get_call_def)

lemma get_modelPath: "https_get_call w modelPath = https_get w modelPath"
  by (simp add: get_scheme https_scheme_modelPath)

text \<open>
  Claim C6, as amended. With the cache directory in place: a response with status 200 is
  streamed to the cache path and the download succeeds. A response with status 301 or 302
  whose Location is an absolute https URL is followed once: the body of the response that
  arrives there is streamed to the cache path and the download succeeds, with no second
  hop; a transport error of that second request fails the download. Every other status of
  the first response, other 2xx and 3xx codes among them, fails the download, and so do a
  transport error and the timeout of the first request.
\<close>

theorem downloadModel_outcomes:
  assumes "cacheDirExists m"
  shows
  "(\<forall>loc body. https_get w modelPath = Response 200 loc body \<longrightarrow>
      snd (downloadModel w m) = Resolved () \<and>
      files (fst (downloadModel w m)) = (files m)(cachedModelPath \<mapsto> body)) \<and>
   (\<forall>code loc body code' loc' body'.
      https_get w modelPath = Response code loc body \<and> (code = 301 \<or> code = 302) \<and>
      https_scheme loc \<and> https_get w loc = Response code' loc' body' \<longrightarrow>
      snd (downloadModel w m) = Resolved () \<and>
      files (fst (downloadModel w m)) = (files m)(cachedModelPath \<mapsto> body')) \<and>
   (\<forall>code loc body msg.
      https_get w modelPath = Response code loc body \<and> (code = 301 \<or> code = 302) \<and>
      https_scheme loc \<and> https_get w loc = RequestError msg \<longrightarrow>
      snd (downloadModel w m) = Rejected (RequestFailed msg) \<and>
      files (fst (downloadModel w m)) cachedModelPath = None) \<and>
   (\<forall>code loc body.
      https_get w modelPath = Response code loc body \<and> code \<noteq> 200 \<and> code \<noteq> 301 \<and> code \<noteq> 302 \<longrightarrow>
      snd (downloadModel w m) = Rejected (HttpError code)) \<and>
   (\<forall>msg. https_get w modelPath = RequestError msg \<longrightarrow>
      snd (downloadModel w m) = Rejected (RequestFailed msg) \<and>
      files (fst (downloadModel w m)) cachedModelPath = None) \<and>
   (https_get w modelPath = RequestTimeout \<longrightarrow>
      snd (downloadModel w m) = Rejected DownloadTimeout)"
  using assms
  by (auto simp: downloadModel_def Let_def get_modelPath get_scheme)

text \<open>
  Claim C6 as stated fails. Status 204 is a 2xx response and status 307 a 3xx redirect,
  and the download rejects both. A 302 whose Location is a relative reference is not
  followed: the call that should follow it throws inside the response callback and the
  download never settles. With the cache directory missing a 200 response is not streamed
  either, and the download never settles.
\<close>

theorem downloadModel_status_counterexample:
  "snd (downloadModel (answering (Response 204 [] [1, 2, 3])) (constructor Map.empty True))
     = Rejected (HttpError 204) \<and>
   snd (downloadModel (answering (Response 307 ''https://cdn.example/model.onnx'' []))
          (constructor Map.empty True))
     = Rejected (HttpError 307) \<and>
   snd (downloadModel (redirecting 302 ''/api/resolve-cache/model.onnx'' (Response 200 [] [4, 5]))
          (constructor Map.empty True))
     = Pending \<and>
   snd (downloadModel (answering (Response 200 [] [1, 2, 3])) (constructor Map.empty False))
     = Pending"
  by (simp add: downloadModel_def answering_def redirecting_def Let_def get_modelPath
        get_no_scheme https_scheme_relative constructor_def)

theorem downloadModel_outcomes_witness:
  "cacheDirExists (constructor Map.empty True) \<and>
   https_get (answering (Response 200 [] [1, 2, 3])) modelPath = Response 200 [] [1, 2, 3] \<and>
   snd (downloadModel (answering (Response 200 [] [1, 2, 3])) (constructor Map.empty True))
     = Resolved () \<and>
   files (fst (downloadModel (answering (Response 200 [] [1, 2, 3])) (constructor Map.empty True)))
     = [cachedModelPath \<mapsto> [1, 2, 3]] \<and>
   https_get (redirecting 302 ''https://cdn.example/model.onnx''
                (Response 302 ''https://cdn.example/again'' [4, 5])) modelPath
     = Response 302 ''https://cdn.example/model.onnx'' [] \<and>
   https_scheme ''https://cdn.example/model.onnx'' \<and>
   https_get (redirecting 302 ''https://cdn.example/model.onnx''
                (Response 302 ''https://cdn.example/again'' [4, 5])) ''https://cdn.example/model.onnx''
     = Response 302 ''https://cdn.example/again'' [4, 5] \<and>
   snd (downloadModel (redirecting 302 ''https://cdn.example/model.onnx''
                         (Response 302 ''https://cdn.example/again'' [4, 5]))
          (constructor Map.empty True)) = Resolved () \<and>
   files (fst (downloadModel (redirecting 302 ''https://cdn.example/model.onnx''
                                (Response 302 ''https://cdn.example/again'' [4, 5]))
                 (constructor Map.empty True)))
     = [cachedModelPath \<mapsto> [4, 5]] \<and>
   https_get (answering (Response 404 [] [])) modelPath = Response 404 [] [] \<and>
   snd (downloadModel (answering (Response 404 [] [])) (constructor Map.empty True))
     = Rejected (HttpError 404) \<and>
   https_get (answering (RequestError ''ECONNRESET'')) modelPath = RequestError ''ECONNRESET'' \<and>
   snd (downloadModel (answering (RequestError ''ECONNRESET'')) (constructor Map.empty True))
     = Rejected (RequestFailed ''ECONNRESET'') \<and>
   https_get (answering RequestTimeout) modelPath = RequestTimeout \<and>
   snd (downloadModel (answering RequestTimeout) (constructor Map.empty True))
     = Rejected DownloadTimeout"
proof -
  let ?m = "constructor Map.empty True"
  let ?w1 = "answering (Response 200 [] [1, 2, 3])"
  let ?w2 = "redirecting 302 ''https://cdn.example/model.onnx''
                (Response 302 ''https://cdn.example/again'' [4, 5])"
  let ?w3 = "answering (Response 404 [] [])"
  let ?w4 = "answering (RequestError ''ECONNRESET'')"
  let ?w5 = "answering RequestTimeout"
  have d: "cacheDirExists ?m" by (simp add: constructor_def)
  have fm: "files ?m = Map.empty" by (simp add: constructor_def)
  have g1: "https_get ?w1 modelPath = Response 200 [] [1, 2, 3]" by (simp add: answering_def)
  have g2: "https_get ?w2 modelPath = Response 302 ''https://cdn.example/model.onnx'' []"
    by (simp add: redirecting_def)
  have sc: "https_scheme ''https://cdn.example/model.onnx''"
    by (simp add: https_scheme_def same_letter_def)
  have g2': "https_get ?w2 ''https://cdn.example/model.onnx'' = Response 302 ''https://cdn.example/again'' [4, 5]"
    by (simp add: redirecting_def modelPath_def)
  have g3: "https_get ?w3 modelPath = Response 404 [] []" by (simp add: answering_def)
  have g4: "https_get ?w4 modelPath = RequestError ''ECONNRESET''" by (simp add: answering_def)
  have g5: "https_get ?w5 modelPath = RequestTimeout" by (simp add: answering_def)
  have r1: "snd (downloadModel ?w1 ?m) = Resolved () \<and>
            files (fst (downloadModel ?w1 ?m)) = [cachedModelPath \<mapsto> [1, 2, 3]]"
    using downloadModel_outcomes [OF d, of ?w1, THEN conjunct1, rule_format, OF g1] fm by simp
  have r2: "snd (downloadModel ?w2 ?m) = Resolved () \<and>
            files (fst (downloadModel ?w2 ?m)) = [cachedModelPath \<mapsto> [4, 5]]"
    using downloadModel_outcomes [OF d, of ?w2, THEN conjunct2, THEN conjunct1, rule_format,
            of 302 "''https://cdn.example/model.onnx''" "[]" 302 "''https://cdn.example/again''" "[4, 5]"]
          g2 sc g2' fm by simp
  have r3: "snd (downloadModel ?w3 ?m) = Rejected (HttpError 404)"
    using downloadModel_outcomes [OF d, of ?w3, THEN conjunct2, THEN conjunct2, THEN conjunct2,
            THEN conjunct1, rule_format, of 404 "[]" "[]"] g3 by simp
  have r4: "snd (downloadModel ?w4 ?m) = Rejected (RequestFailed ''ECONNRESET'')"
    using downloadModel_outcomes [OF d, of ?w4, THEN conjunct2, THEN conjunct2, THEN conjunct2,
            THEN conjunct2, THEN conjunct1, rule_format, OF g4] by simp
  have r5: "snd (downloadModel ?w5 ?m) = Rejected DownloadTimeout"
    using downloadModel_outcomes [OF d, of ?w5, THEN conjunct2, THEN conjunct2, THEN conjunct2,
            THEN conjunct2, THEN conjunct2] g5 by simp
  show ?thesis using d g1 r1 g2 sc g2' r2 g3 r3 g4 r4 g5 r5 by blast
qed

lemma failed_0: "failed 0 = constructor Map.empty True"
  by (simp add: failed_def constructor_def)












section \<open>Properties of the event loop\<close>


















end
